theory Spec2Isabelle
  imports Complex_Main
begin

section \<open>Single-precision numbers\<close>

text \<open>
  The tensors of the notebook hold 32-bit floats (torch's default dtype), and every
  operation on them rounds. A value is a finite real that binary32 represents, an
  infinity with its sign (\<open>True\<close> for the negative one) or not-a-number. The sign of a
  zero is not kept: the two zeros compare equal and the notebook never divides.
\<close>

datatype f32 = Finite real | Infty bool | NaN

text \<open>Rounding to the nearest integer, a tie to the even one.\<close>

definition rne :: "real \<Rightarrow> int" where
  "rne y = (let f = \<lfloor>y\<rfloor>; d = y - of_int f
            in if d < 1 / 2 then f else if 1 / 2 < d then f + 1
               else if even f then f else f + 1)"

text \<open>
  The binary exponent of a magnitude \<open>a\<close>, between -126 (also for the subnormal range)
  and 127: the first \<open>e\<close> from -126 upwards with \<open>a < 2 ^ (e + 1)\<close>.
\<close>

fun expo_from :: "nat \<Rightarrow> int \<Rightarrow> real \<Rightarrow> int" where
  "expo_from 0 e a = e"
| "expo_from (Suc n) e a = (if a < 2 powi (e + 1) then e else expo_from n (e + 1) a)"

definition expo :: "real \<Rightarrow> int" where
  "expo x = expo_from 253 (- 126) \<bar>x\<bar>"

text \<open>
  Rounding a real to binary32, to nearest with ties to even: 24 significant bits, the
  last of weight \<open>2 ^ (expo x - 23)\<close>; a result of magnitude \<open>2 ^ 128\<close> overflows to the
  infinity of its sign.
\<close>

definition round32 :: "real \<Rightarrow> f32" where
  "round32 x =
     (let u = 2 powi (expo x - 23); r = of_int (rne (x / u)) * u
      in if 2 powi 128 \<le> \<bar>r\<bar> then Infty (x < 0) else Finite r)"

fun f32_add :: "f32 \<Rightarrow> f32 \<Rightarrow> f32" where
  "f32_add NaN b = NaN"
| "f32_add a NaN = NaN"
| "f32_add (Infty s) (Infty t) = (if s = t then Infty s else NaN)"
| "f32_add (Infty s) (Finite b) = Infty s"
| "f32_add (Finite a) (Infty t) = Infty t"
| "f32_add (Finite a) (Finite b) = round32 (a + b)"

fun f32_mul :: "f32 \<Rightarrow> f32 \<Rightarrow> f32" where
  "f32_mul NaN b = NaN"
| "f32_mul a NaN = NaN"
| "f32_mul (Infty s) (Infty t) = Infty (s \<noteq> t)"
| "f32_mul (Infty s) (Finite b) = (if b = 0 then NaN else Infty (s \<noteq> (b < 0)))"
| "f32_mul (Finite a) (Infty t) = (if a = 0 then NaN else Infty (t \<noteq> (a < 0)))"
| "f32_mul (Finite a) (Finite b) = round32 (a * b)"

fun f32_neg :: "f32 \<Rightarrow> f32" where
  "f32_neg NaN = NaN"
| "f32_neg (Infty s) = Infty (\<not> s)"
| "f32_neg (Finite a) = Finite (- a)"

definition f32_sub :: "f32 \<Rightarrow> f32 \<Rightarrow> f32" where
  "f32_sub a b = f32_add a (f32_neg b)"

fun f32_le :: "f32 \<Rightarrow> f32 \<Rightarrow> bool" where
  "f32_le NaN b = False"
| "f32_le a NaN = False"
| "f32_le (Infty s) (Infty t) = (s \<or> \<not> t)"
| "f32_le (Infty s) (Finite b) = s"
| "f32_le (Finite a) (Infty t) = (\<not> t)"
| "f32_le (Finite a) (Finite b) = (a \<le> b)"

section \<open>Tensors\<close>

text \<open>
  A torch tensor is a shape (its sizes) and a flat, row-major list of entries, each a
  binary32 value.
\<close>

record tensor =
  shape :: "nat list"
  data :: "f32 list"

definition numel :: "tensor \<Rightarrow> nat" where
  "numel t = prod_list (shape t)"

definition wf_tensor :: "tensor \<Rightarrow> bool" where
  "wf_tensor t \<longleftrightarrow> length (data t) = numel t"

text \<open>
  \<^verbatim>\<open>t + c\<close> and \<^verbatim>\<open>t * c\<close> for a Python float \<open>c\<close>: the scalar is converted to the dtype of the
  tensor, which rounds it to binary32, and is broadcast to every entry; the operation
  itself rounds again.
\<close>

definition add_scalar :: "tensor \<Rightarrow> real \<Rightarrow> tensor" where
  "add_scalar t c = \<lparr>shape = shape t, data = map (\<lambda>v. f32_add v (round32 c)) (data t)\<rparr>"

definition mul_scalar :: "tensor \<Rightarrow> real \<Rightarrow> tensor" where
  "mul_scalar t c = \<lparr>shape = shape t, data = map (\<lambda>v. f32_mul v (round32 c)) (data t)\<rparr>"

text \<open>
  \<^verbatim>\<open>a + b\<close> for two tensors of one shape is entrywise. The simulator only ever adds tensors of
  one shape (\<open>randn_like\<close> copies the shape of its argument, see \<open>randn_like_shape\<close>), so
  torch's broadcasting of unequal shapes never arises and is not modelled.
\<close>

definition add_tensor :: "tensor \<Rightarrow> tensor \<Rightarrow> tensor" where
  "add_tensor a b = \<lparr>shape = shape a, data = map2 f32_add (data a) (data b)\<rparr>"

section \<open>The random number generator\<close>

text \<open>
  The generator of torch is not part of the notebook: it is a parameter. A generator state
  \<open>'g\<close> yields one binary32 draw and the next state; \<open>randn\<close> is a standard normal draw and
  \<open>rand\<close> a uniform draw from the unit interval.
\<close>

type_synonym 'g sampler = "'g \<Rightarrow> f32 \<times> 'g"

record 'g torch =
  randn :: "'g sampler"
  rand :: "'g sampler"

fun draws :: "'g sampler \<Rightarrow> nat \<Rightarrow> 'g \<Rightarrow> f32 list \<times> 'g" where
  "draws f 0 g = ([], g)"
| "draws f (Suc n) g =
     (let (v, g1) = f g; (vs, g2) = draws f n g1 in (v # vs, g2))"

definition randn_like :: "'g torch \<Rightarrow> tensor \<Rightarrow> 'g \<Rightarrow> tensor \<times> 'g" where
  "randn_like T t g =
     (let (vs, g') = draws (randn T) (numel t) g in (\<lparr>shape = shape t, data = vs\<rparr>, g'))"

section \<open>The simulator\<close>

text \<open>
  \<^verbatim>\<open>
  def simulator(theta):
      # linear gaussian
      return theta + 1.0 + torch.randn_like(theta) * 0.1
  \<close>
  Three operations, each on binary32 tensors and each rounding: \<^verbatim>\<open>theta + 1.0\<close>, the noise
  times \<^verbatim>\<open>0.1\<close>, and the sum of the two.
\<close>

definition simulator :: "'g torch \<Rightarrow> tensor \<Rightarrow> 'g \<Rightarrow> tensor \<times> 'g" where
  "simulator T theta g =
     (let (eps, g') = randn_like T theta g
      in (add_tensor (add_scalar theta 1.0) (mul_scalar eps 0.1), g'))"

section \<open>The prior\<close>

text \<open>
  \<^verbatim>\<open>
  num_dim = 3
  prior = utils.BoxUniform(low=-2 * torch.ones(num_dim), high=2 * torch.ones(num_dim))
  \<close>
  A float times a tensor scales every entry, as the tensor times the float does.
\<close>

record box_uniform =
  low :: tensor
  high :: tensor

definition num_dim :: nat where
  "num_dim = 3"

definition ones :: "nat \<Rightarrow> tensor" where
  "ones n = \<lparr>shape = [n], data = replicate n (Finite 1)\<rparr>"

definition prior :: box_uniform where
  "prior = \<lparr>low = mul_scalar (ones num_dim) (- 2), high = mul_scalar (ones num_dim) 2\<rparr>"

text \<open>
  Modelled from the spec: the class \<^verbatim>\<open>BoxUniform\<close> of the library and its method
  \<^verbatim>\<open>sample\<close> are not among the sources. ``Sampling returns a batch of \<open>\<theta>\<close> vectors of the
  requested count; each coordinate independently uniform on [-2, 2]'': a batch of \<open>n\<close> rows
  of one entry per dimension, each entry an own unit-uniform draw \<open>u\<close> of the generator,
  scaled to \<open>low + u * (high - low)\<close> of its dimension.
\<close>

definition box_sample :: "'g torch \<Rightarrow> box_uniform \<Rightarrow> nat \<Rightarrow> 'g \<Rightarrow> tensor \<times> 'g" where
  "box_sample T p n g =
     (let d = numel (low p);
          (us, g') = draws (rand T) (n * d) g
      in (\<lparr>shape = [n, d],
           data = map (\<lambda>(k, u). f32_add (data (low p) ! (k mod d))
                     (f32_mul u (f32_sub (data (high p) ! (k mod d)) (data (low p) ! (k mod d)))))
                    (enumerate 0 us)\<rparr>, g'))"

text \<open>
  The parameter space of a box prior: batches of vectors of the prior's dimension with
  every coordinate between the bounds of its dimension.
\<close>

definition in_box :: "box_uniform \<Rightarrow> tensor \<Rightarrow> bool" where
  "in_box p t \<longleftrightarrow>
     wf_tensor t \<and>
     (case shape t of [n, d] \<Rightarrow> d = numel (low p) | _ \<Rightarrow> False) \<and>
     list_all (\<lambda>(k, v). f32_le (data (low p) ! (k mod numel (low p))) v \<and>
                       f32_le v (data (high p) ! (k mod numel (low p))))
       (enumerate 0 (data t))"

text \<open>Row \<open>i\<close> of a batch of \<open>d\<close>-dimensional vectors, as a batch of one vector.\<close>

definition row :: "nat \<Rightarrow> tensor \<Rightarrow> tensor" where
  "row i t = (let d = prod_list (tl (shape t))
              in \<lparr>shape = 1 # tl (shape t), data = take d (drop (i * d) (data t))\<rparr>)"

section \<open>The inference library\<close>

type_synonym 'g simulator_fn = "tensor \<Rightarrow> 'g \<Rightarrow> tensor \<times> 'g"

text \<open>The calls the notebook makes, and the exceptions a run can end with.\<close>

datatype call =
  ProcessPrior | ProcessSimulator | CheckSbiInputs | NPECall | SimulateForSbi nat
  | AppendSimulations | Train | BuildPosterior | PriorSample nat | SimulatorCall
  | PosteriorSample nat | Pairplot

datatype error = NameError string | Rejected call

text \<open>
  The library's checks, its training routine and its posterior are not among the sources
  and are parameters. The notebook imports \<^verbatim>\<open>process_prior\<close>, \<^verbatim>\<open>process_simulator\<close> and
  \<^verbatim>\<open>check_sbi_inputs\<close> from the library's module \<^verbatim>\<open>user_input_checks\<close> and calls them under
  the comment ``Check prior, simulator, consistency'': each of the three accepts or
  rejects its arguments, \<open>process_prior_ok\<close>, \<open>process_simulator_ok\<close> and
  \<open>check_sbi_inputs\<close> say which. \<open>train\<close> fits an estimator of type \<open>'e\<close> to the appended
  simulations, \<open>build_posterior\<close> wraps it as a posterior of type \<open>'p\<close>.

  Modelled from the spec: the method \<^verbatim>\<open>sample\<close> of the posterior is not among the sources.
  The posterior ``supports a draw N samples conditioned on x operation'' and is ``stateless
  with respect to which x is queried'': \<open>sample\<close> reads the posterior, the count and the
  observation, and returns the samples; it returns no new posterior.
\<close>

record ('g, 'e, 'p) sbi =
  process_prior_ok :: "box_uniform \<Rightarrow> bool"
  process_simulator_ok :: "'g simulator_fn \<Rightarrow> box_uniform \<Rightarrow> bool \<Rightarrow> bool"
  check_sbi_inputs :: "'g simulator_fn \<Rightarrow> box_uniform \<Rightarrow> 'g \<Rightarrow> bool \<times> 'g"
  train :: "(tensor \<times> tensor) list \<Rightarrow> 'g \<Rightarrow> 'e \<times> 'g"
  build_posterior :: "'e \<Rightarrow> 'p"
  sample :: "'p \<Rightarrow> nat \<Rightarrow> tensor \<Rightarrow> 'g \<Rightarrow> tensor \<times> 'g"

text \<open>
  Modelled from the spec: what \<^verbatim>\<open>process_prior\<close> and \<^verbatim>\<open>process_simulator\<close> return when they
  accept is not among the sources. The prior comes back with its number of parameters and
  the flag that it does not return numpy arrays, the simulator comes back as the same
  function on batches. When they reject, they raise.
\<close>

definition process_prior ::
  "('g, 'e, 'p) sbi \<Rightarrow> box_uniform \<Rightarrow> error + box_uniform \<times> nat \<times> bool" where
  "process_prior L p =
     (if process_prior_ok L p then Inr (p, numel (low p), False) else Inl (Rejected ProcessPrior))"

definition process_simulator ::
  "('g, 'e, 'p) sbi \<Rightarrow> 'g simulator_fn \<Rightarrow> box_uniform \<Rightarrow> bool \<Rightarrow> error + 'g simulator_fn" where
  "process_simulator L sim p is_numpy =
     (if process_simulator_ok L sim p is_numpy then Inr sim else Inl (Rejected ProcessSimulator))"

text \<open>
  Modelled from the spec: \<^verbatim>\<open>NPE\<close>, \<^verbatim>\<open>append_simulations\<close> and \<^verbatim>\<open>simulate_for_sbi\<close> are not
  among the sources. The inference object holds its prior and the appended simulations;
  \<^verbatim>\<open>simulate_for_sbi\<close> is ``sample parameters from prior, run simulator, collect
  (parameter, simulation) pairs''.
\<close>

record inference =
  inf_prior :: box_uniform
  rounds :: "(tensor \<times> tensor) list"

definition NPE :: "box_uniform \<Rightarrow> inference" where
  "NPE p = \<lparr>inf_prior = p, rounds = []\<rparr>"

definition append_simulations :: "inference \<Rightarrow> tensor \<Rightarrow> tensor \<Rightarrow> inference" where
  "append_simulations infer theta x = infer\<lparr>rounds := rounds infer @ [(theta, x)]\<rparr>"

definition simulate_for_sbi ::
  "'g torch \<Rightarrow> 'g simulator_fn \<Rightarrow> box_uniform \<Rightarrow> nat \<Rightarrow> 'g \<Rightarrow> (tensor \<times> tensor) \<times> 'g" where
  "simulate_for_sbi T sim proposal num_simulations g =
     (let (theta, g1) = box_sample T proposal num_simulations g;
          (x, g2) = sim theta g1
      in ((theta, x), g2))"

section \<open>The notebook\<close>

text \<open>
  The state of the kernel: the generator, the variables the cells assign (\<open>None\<close> while a
  name is unbound) and, as a record of what has run, the calls made so far.
\<close>

record ('g, 'e, 'p) nb_state =
  rng :: 'g
  calls :: "call list"
  prior_v :: "box_uniform option"
  num_parameters_v :: "nat option"
  prior_returns_numpy_v :: "bool option"
  simulator_v :: "'g simulator_fn option"
  inference_v :: "inference option"
  theta_v :: "tensor option"
  x_v :: "tensor option"
  density_estimator_v :: "'e option"
  posterior_v :: "'p option"
  theta_1_v :: "tensor option"
  x_obs_1_v :: "tensor option"
  theta_2_v :: "tensor option"
  x_obs_2_v :: "tensor option"
  posterior_samples_1_v :: "tensor option"
  posterior_samples_2_v :: "tensor option"

definition fresh :: "'g \<Rightarrow> ('g, 'e, 'p) nb_state" where
  "fresh g =
     \<lparr>rng = g, calls = [], prior_v = None, num_parameters_v = None,
      prior_returns_numpy_v = None, simulator_v = None, inference_v = None,
      theta_v = None, x_v = None, density_estimator_v = None, posterior_v = None,
      theta_1_v = None, x_obs_1_v = None, theta_2_v = None, x_obs_2_v = None,
      posterior_samples_1_v = None, posterior_samples_2_v = None\<rparr>"

text \<open>
  A cell either finishes or raises; an exception is caught nowhere in the notebook, so it
  ends the run, in the state reached when it was raised.
\<close>

datatype 's outcome = Finished 's | Raised error 's

definition and_then :: "'s outcome \<Rightarrow> ('s \<Rightarrow> 's outcome) \<Rightarrow> 's outcome" where
  "and_then r f = (case r of Finished s \<Rightarrow> f s | Raised e s \<Rightarrow> Raised e s)"

fun state_of :: "'s outcome \<Rightarrow> 's" where
  "state_of (Finished s) = s"
| "state_of (Raised e s) = s"

text \<open>Reading a variable: an unbound name raises \<^verbatim>\<open>NameError\<close>.\<close>

definition lookup :: "string \<Rightarrow> 'a option \<Rightarrow> 's \<Rightarrow> ('a \<Rightarrow> 's outcome) \<Rightarrow> 's outcome" where
  "lookup name v s k = (case v of None \<Rightarrow> Raised (NameError name) s | Some a \<Rightarrow> k a)"

definition called :: "call \<Rightarrow> ('g, 'e, 'p) nb_state \<Rightarrow> ('g, 'e, 'p) nb_state" where
  "called c s = s\<lparr>calls := calls s @ [c]\<rparr>"

text \<open>
  \<^verbatim>\<open>
  num_dim = 3
  prior = utils.BoxUniform(low=-2 * torch.ones(num_dim), high=2 * torch.ones(num_dim))
  def simulator(theta): ...
  # Check prior, simulator, consistency
  prior, num_parameters, prior_returns_numpy = process_prior(prior)
  simulator = process_simulator(simulator, prior, prior_returns_numpy)
  check_sbi_inputs(simulator, prior)
  \<close>
\<close>

definition cell2 ::
  "'g torch \<Rightarrow> ('g, 'e, 'p) sbi \<Rightarrow> ('g, 'e, 'p) nb_state \<Rightarrow> ('g, 'e, 'p) nb_state outcome" where
  "cell2 T L s =
     (let s0 = called ProcessPrior (s\<lparr>prior_v := Some prior, simulator_v := Some (simulator T)\<rparr>)
      in case process_prior L prior of
           Inl e \<Rightarrow> Raised e s0
         | Inr (p, n, is_numpy) \<Rightarrow>
             (let s1 = called ProcessSimulator
                         (s0\<lparr>prior_v := Some p, num_parameters_v := Some n,
                             prior_returns_numpy_v := Some is_numpy\<rparr>)
              in case process_simulator L (simulator T) p is_numpy of
                   Inl e \<Rightarrow> Raised e s1
                 | Inr sim \<Rightarrow>
                     (let s2 = s1\<lparr>simulator_v := Some sim\<rparr>;
                          (ok, g1) = check_sbi_inputs L sim p (rng s2);
                          s3 = called CheckSbiInputs (s2\<lparr>rng := g1\<rparr>)
                      in if ok then Finished s3 else Raised (Rejected CheckSbiInputs) s3)))"

text \<open>
  \<^verbatim>\<open>
  inference = NPE(prior=prior)
  theta, x = simulate_for_sbi(simulator, proposal=prior, num_simulations=2000)
  inference = inference.append_simulations(theta, x)
  density_estimator = inference.train()
  posterior = inference.build_posterior(density_estimator)
  \<close>
\<close>

definition cell3 ::
  "'g torch \<Rightarrow> ('g, 'e, 'p) sbi \<Rightarrow> ('g, 'e, 'p) nb_state \<Rightarrow> ('g, 'e, 'p) nb_state outcome" where
  "cell3 T L s =
     lookup ''prior'' (prior_v s) s (\<lambda>p.
       let s1 = called NPECall (s\<lparr>inference_v := Some (NPE p)\<rparr>) in
       lookup ''simulator'' (simulator_v s1) s1 (\<lambda>sim.
         let ((theta, x), g1) = simulate_for_sbi T sim p 2000 (rng s1);
             s2 = called (SimulateForSbi 2000)
                    (s1\<lparr>rng := g1, theta_v := Some theta, x_v := Some x\<rparr>);
             infer = append_simulations (NPE p) theta x;
             s3 = called AppendSimulations (s2\<lparr>inference_v := Some infer\<rparr>);
             (de, g2) = train L (rounds infer) (rng s3);
             s4 = called Train (s3\<lparr>rng := g2, density_estimator_v := Some de\<rparr>);
             s5 = called BuildPosterior (s4\<lparr>posterior_v := Some (build_posterior L de)\<rparr>)
         in Finished s5))"

text \<open>
  \<^verbatim>\<open>
  theta_1 = prior.sample((1,))
  x_obs_1 = simulator(theta_1)
  theta_2 = prior.sample((1,))
  x_obs_2 = simulator(theta_2)
  \<close>
\<close>

definition cell4 ::
  "'g torch \<Rightarrow> ('g, 'e, 'p) nb_state \<Rightarrow> ('g, 'e, 'p) nb_state outcome" where
  "cell4 T s =
     lookup ''prior'' (prior_v s) s (\<lambda>p.
       let (t1, g1) = box_sample T p 1 (rng s);
           s1 = called (PriorSample 1) (s\<lparr>rng := g1, theta_1_v := Some t1\<rparr>) in
       lookup ''simulator'' (simulator_v s1) s1 (\<lambda>sim.
         let (x1, g2) = sim t1 (rng s1);
             s2 = called SimulatorCall (s1\<lparr>rng := g2, x_obs_1_v := Some x1\<rparr>);
             (t2, g3) = box_sample T p 1 (rng s2);
             s3 = called (PriorSample 1) (s2\<lparr>rng := g3, theta_2_v := Some t2\<rparr>);
             (x2, g4) = sim t2 (rng s3);
             s4 = called SimulatorCall (s3\<lparr>rng := g4, x_obs_2_v := Some x2\<rparr>)
         in Finished s4))"

text \<open>
  \<^verbatim>\<open>
  posterior_samples_1 = posterior.sample((10000,), x=x_obs_1)
  _ = analysis.pairplot(posterior_samples_1, ..., points=theta_1)
  \<close>
\<close>

definition cell5 ::
  "('g, 'e, 'p) sbi \<Rightarrow> ('g, 'e, 'p) nb_state \<Rightarrow> ('g, 'e, 'p) nb_state outcome" where
  "cell5 L s =
     lookup ''posterior'' (posterior_v s) s (\<lambda>post.
       lookup ''x_obs_1'' (x_obs_1_v s) s (\<lambda>x1.
         let (samples, g1) = sample L post 10000 x1 (rng s);
             s1 = called (PosteriorSample 10000)
                    (s\<lparr>rng := g1, posterior_samples_1_v := Some samples\<rparr>) in
         lookup ''theta_1'' (theta_1_v s1) s1 (\<lambda>t1. Finished (called Pairplot s1))))"

text \<open>
  \<^verbatim>\<open>
  posterior_samples_2 = posterior.sample((10000,), x=x_obs_2)
  _ = analysis.pairplot(posterior_samples_2, ..., points=theta_2)
  \<close>
\<close>

definition cell6 ::
  "('g, 'e, 'p) sbi \<Rightarrow> ('g, 'e, 'p) nb_state \<Rightarrow> ('g, 'e, 'p) nb_state outcome" where
  "cell6 L s =
     lookup ''posterior'' (posterior_v s) s (\<lambda>post.
       lookup ''x_obs_2'' (x_obs_2_v s) s (\<lambda>x2.
         let (samples, g1) = sample L post 10000 x2 (rng s);
             s1 = called (PosteriorSample 10000)
                    (s\<lparr>rng := g1, posterior_samples_2_v := Some samples\<rparr>) in
         lookup ''theta_2'' (theta_2_v s1) s1 (\<lambda>t2. Finished (called Pairplot s1))))"

text \<open>The cells in order, from a fresh kernel.\<close>

definition run_notebook ::
  "'g torch \<Rightarrow> ('g, 'e, 'p) sbi \<Rightarrow> 'g \<Rightarrow> ('g, 'e, 'p) nb_state outcome" where
  "run_notebook T L g =
     and_then (and_then (and_then (and_then (cell2 T L (fresh g)) (cell3 T L)) (cell4 T))
       (cell5 L)) (cell6 L)"

text \<open>What fitting produced: the inference object, the training set, the estimator, the posterior.\<close>

definition fitted ::
  "('g, 'e, 'p) nb_state \<Rightarrow>
     inference option \<times> tensor option \<times> tensor option \<times> 'e option \<times> 'p option" where
  "fitted s = (inference_v s, theta_v s, x_v s, density_estimator_v s, posterior_v s)"


text \<open>
  A deterministic generator on a counter, for evaluating the definitions on concrete inputs:
  the \<open>n\<close>-th normal draw is \<open>n - 1\<close>, the \<open>n\<close>-th uniform draw is \<open>(n mod 4) / 4\<close>.
\<close>

definition counter_torch :: "nat torch" where
  "counter_torch =
     \<lparr>randn = (\<lambda>n. (Finite (real n - 1), Suc n)),
      rand = (\<lambda>n. (Finite (real (n mod 4) / 4), Suc n))\<rparr>"

text \<open>
  A stand-in for the library, for evaluating the notebook on concrete inputs: each of the
  three checks accepts or rejects as told, training keeps the simulations as the
  estimator, and every posterior sample is the observation.
\<close>

definition demo_sbi ::
  "bool \<Rightarrow> bool \<Rightarrow> bool \<Rightarrow> (nat, (tensor \<times> tensor) list, (tensor \<times> tensor) list) sbi" where
  "demo_sbi prior_ok simulator_ok inputs_ok =
     \<lparr>process_prior_ok = (\<lambda>p. prior_ok),
      process_simulator_ok = (\<lambda>sim p is_numpy. simulator_ok),
      check_sbi_inputs = (\<lambda>sim p g. (inputs_ok, g)),
      train = (\<lambda>rs g. (rs, g)),
      build_posterior = (\<lambda>e. e),
      sample = (\<lambda>post n x g.
        (\<lparr>shape = [n, numel x], data = concat (replicate n (data x))\<rparr>, g))\<rparr>"

text \<open>A kernel state in which a posterior and two observations are bound.\<close>

definition demo_state :: "(nat, (tensor \<times> tensor) list, (tensor \<times> tensor) list) nb_state" where
  "demo_state =
     (fresh 0)
       \<lparr>posterior_v := Some [],
        theta_1_v := Some \<lparr>shape = [1, 3], data = [Finite 0, Finite 0, Finite 0]\<rparr>,
        x_obs_1_v := Some \<lparr>shape = [1, 3], data = [Finite 1, Finite 1, Finite 1]\<rparr>,
        theta_2_v := Some \<lparr>shape = [1, 3], data = [Finite 1, Finite 1, Finite 1]\<rparr>,
        x_obs_2_v := Some \<lparr>shape = [1, 3], data = [Finite 2, Finite 2, Finite 2]\<rparr>\<rparr>"

text \<open>The tensors the simulator is evaluated on below.\<close>

definition theta_a :: tensor where
  "theta_a = \<lparr>shape = [1, 3], data = [Finite 0, Finite (1 / 2), Finite (- 2)]\<rparr>"

definition theta_b :: tensor where
  "theta_b = \<lparr>shape = [1], data = [Finite (1 / 2)]\<rparr>"

definition delta_b :: tensor where
  "delta_b = \<lparr>shape = [1], data = [Finite (1 / 16777216)]\<rparr>"

section \<open>Rounding\<close>

lemma rne_error: "\<bar>of_int (rne y) - y\<bar> \<le> 1 / 2"
proof -
  have "of_int \<lfloor>y\<rfloor> \<le> y" "y < of_int \<lfloor>y\<rfloor> + 1"
    by linarith+
  then show ?thesis
    by (auto simp add: rne_def Let_def)
qed

lemma pow2_less_exp: "(2::real) powi a \<le> x \<Longrightarrow> x < 2 powi b \<Longrightarrow> a < b"
proof (rule ccontr)
  assume "2 powi a \<le> x" "x < 2 powi b" "\<not> a < b"
  then have "(2::real) powi b \<le> 2 powi a"
    by (intro power_int_increasing) auto
  with \<open>2 powi a \<le> x\<close> \<open>x < 2 powi b\<close> show False by linarith
qed

lemma expo_from_upper: "a < 2 powi (k + 1) \<Longrightarrow> e \<le> k \<Longrightarrow> expo_from n e a \<le> k"
proof (induction n arbitrary: e)
  case 0
  then show ?case by simp
next
  case (Suc n)
  show ?case
  proof (cases "a < 2 powi (e + 1)")
    case True
    with Suc.prems show ?thesis by simp
  next
    case False
    then have "2 powi (e + 1) \<le> a" by simp
    from pow2_less_exp [OF this Suc.prems(1)] have "e + 1 \<le> k" by simp
    from Suc.IH [OF Suc.prems(1) this] False show ?thesis by simp
  qed
qed

lemma expo_from_lower: "2 powi e \<le> a \<Longrightarrow> 2 powi (expo_from n e a) \<le> a"
  by (induction n arbitrary: e) auto

lemma expo_from_range: "e \<le> expo_from n e a \<and> expo_from n e a \<le> e + int n"
proof (induction n arbitrary: e)
  case 0
  then show ?case by simp
next
  case (Suc n)
  from Suc.IH [of "e + 1"] show ?case by auto
qed

lemma expo_from_strict: "a < 2 powi (e + int n + 1) \<Longrightarrow> a < 2 powi (expo_from n e a + 1)"
proof (induction n arbitrary: e)
  case 0
  then show ?case by simp
next
  case (Suc n)
  show ?case
  proof (cases "a < 2 powi (e + 1)")
    case True
    then show ?thesis by simp
  next
    case False
    from Suc.prems have "a < 2 powi (e + 1 + int n + 1)"
      by (simp add: add.commute add.left_commute)
    from Suc.IH [OF this] False show ?thesis by simp
  qed
qed

lemma expo_range: "- 126 \<le> expo x \<and> expo x \<le> 127"
  using expo_from_range [of "- 126" 253 "\<bar>x\<bar>"] by (simp add: expo_def)

lemma expo_le: "\<bar>x\<bar> \<le> 2 powi k \<Longrightarrow> - 126 \<le> k \<Longrightarrow> expo x \<le> k"
proof -
  assume a: "\<bar>x\<bar> \<le> 2 powi k" and k: "- 126 \<le> k"
  have "(2::real) powi k < 2 powi (k + 1)"
    by (intro power_int_strict_increasing) auto
  with a have "\<bar>x\<bar> < 2 powi (k + 1)" by linarith
  from expo_from_upper [OF this k] show ?thesis
    by (simp add: expo_def)
qed

lemma expo_eq:
  assumes lo: "2 powi e \<le> \<bar>x\<bar>" and hi: "\<bar>x\<bar> < 2 powi (e + 1)"
    and e: "- 126 \<le> e" "e \<le> 127"
  shows "expo x = e"
proof -
  have "(2::real) powi (- 126) \<le> 2 powi e"
    using e by (intro power_int_increasing) auto
  with lo have "2 powi (- 126) \<le> \<bar>x\<bar>" by linarith
  from expo_from_lower [OF this, of 253] have l: "2 powi (expo x) \<le> \<bar>x\<bar>"
    by (simp add: expo_def)
  have "(2::real) powi (e + 1) \<le> 2 powi (- 126 + int 253 + 1)"
    using e by (intro power_int_increasing) auto
  with hi have "\<bar>x\<bar> < 2 powi (- 126 + int 253 + 1)" by linarith
  from expo_from_strict [OF this] have u: "\<bar>x\<bar> < 2 powi (expo x + 1)"
    by (simp add: expo_def)
  from pow2_less_exp [OF l hi] pow2_less_exp [OF lo u] show ?thesis by simp
qed

lemma expo_subnormal: "\<bar>x\<bar> < 2 powi (- 126) \<Longrightarrow> expo x = - 126"
proof -
  assume a: "\<bar>x\<bar> < 2 powi (- 126)"
  have "(2::real) powi (- 126) \<le> 2 powi (- 126 + 1)"
    by (intro power_int_increasing) auto
  with a have b: "\<bar>x\<bar> < 2 powi (- 126 + 1)" by linarith
  have "expo_from (Suc 252) (- 126) \<bar>x\<bar> = - 126"
    using b by (simp only: expo_from.simps if_True)
  then show ?thesis
    by (simp add: expo_def)
qed

lemma round32_error:
  assumes x: "\<bar>x\<bar> \<le> 2 powi k" and k: "- 126 \<le> k" "k \<le> 127"
  shows "\<exists>r. round32 x = Finite r \<and> \<bar>r - x\<bar> \<le> 2 powi (k - 24)"
proof -
  define u :: real where "u = 2 powi (expo x - 23)"
  define r where "r = of_int (rne (x / u)) * u"
  have u: "0 < u" by (simp add: u_def)
  have ek: "expo x \<le> k" by (rule expo_le [OF x k(1)])
  have "r - x = (of_int (rne (x / u)) - x / u) * u"
    using u by (simp add: r_def field_simps)
  then have "\<bar>r - x\<bar> = \<bar>of_int (rne (x / u)) - x / u\<bar> * u"
    using u by (simp add: abs_mult)
  also have "\<dots> \<le> 1 / 2 * u"
    using rne_error [of "x / u"] u by (intro mult_right_mono) auto
  also have "1 / 2 * u = 2 powi (expo x - 24)"
    by (simp add: u_def power_int_diff)
  also have "\<dots> \<le> 2 powi (k - 24)"
    using ek by (intro power_int_increasing) auto
  finally have err: "\<bar>r - x\<bar> \<le> 2 powi (k - 24)" .
  have "(2::real) powi (k - 24) < 2 powi k"
    by (intro power_int_strict_increasing) auto
  with err x have "\<bar>r\<bar> < 2 powi k + 2 powi k" by linarith
  also have "2 powi k + 2 powi k = (2::real) powi (k + 1)"
    by (simp add: power_int_add)
  also have "\<dots> \<le> 2 powi 128"
    using k by (intro power_int_increasing) auto
  finally have "\<not> 2 powi 128 \<le> \<bar>r\<bar>" by simp
  then have "round32 x = Finite r"
    by (simp add: round32_def Let_def r_def u_def)
  with err show ?thesis by blast
qed

lemma round32_normal:
  assumes lo: "2 powi e \<le> \<bar>x\<bar>" and hi: "\<bar>x\<bar> < 2 powi (e + 1)"
    and e: "- 126 \<le> e" "e \<le> 127"
  shows "round32 x =
     (let r = of_int (rne (x / 2 powi (e - 23))) * 2 powi (e - 23)
      in if 2 powi 128 \<le> \<bar>r\<bar> then Infty (x < 0) else Finite r)"
  by (simp add: round32_def expo_eq [OF lo hi e] Let_def)


lemma round32_0: "round32 0 = Finite 0"
  by (simp add: round32_def rne_def Let_def)

lemma round32_1: "round32 1 = Finite 1"
  by (subst round32_normal [of 0]) (simp_all add: rne_def Let_def)

lemma round32_tenth: "round32 (1 / 10) = Finite (13421773 / 134217728)"
  by (subst round32_normal [of "- 4"]) (simp_all add: rne_def Let_def)

lemma round32_2: "round32 2 = Finite 2"
  by (subst round32_normal [of 1]) (simp_all add: rne_def Let_def)

lemma round32_m2: "round32 (- 2) = Finite (- 2)"
  by (subst round32_normal [of 1]) (simp_all add: rne_def Let_def)

lemma round32_4: "round32 4 = Finite 4"
  by (subst round32_normal [of 2]) (simp_all add: rne_def Let_def)

lemma entry_error:
  assumes t: "\<bar>t\<bar> \<le> 3" and e: "\<bar>e\<bar> \<le> 8"
  shows "\<exists>r. f32_add (f32_add (Finite t) (round32 1)) (f32_mul (Finite e) (round32 (1 / 10)))
               = Finite r \<and> \<bar>r - (t + 1 + e / 10)\<bar> \<le> 1 / 10 ^ 6"
proof -
  let ?c = "13421773 / 134217728 :: real"
  have "\<bar>t + 1\<bar> \<le> 2 powi 2"
    using t by simp
  from round32_error [OF this] obtain a where a: "round32 (t + 1) = Finite a"
    and ea: "\<bar>a - (t + 1)\<bar> \<le> 2 powi (2 - 24)"
    by auto
  have "\<bar>e * ?c\<bar> \<le> 2 powi 0"
    using e by (simp add: abs_mult)
  from round32_error [OF this] obtain b where b: "round32 (e * ?c) = Finite b"
    and eb: "\<bar>b - e * ?c\<bar> \<le> 2 powi (0 - 24)"
    by auto
  have ea': "\<bar>a - (t + 1)\<bar> \<le> 1 / 4194304" and eb': "\<bar>b - e * ?c\<bar> \<le> 1 / 16777216"
    using ea eb by simp_all
  have ec: "\<bar>e * ?c - e / 10\<bar> \<le> 8 / 671088640"
  proof -
    have "e * ?c - e / 10 = e / 671088640" by simp
    then show ?thesis using e by simp
  qed
  have "\<bar>e / 10\<bar> \<le> 8 / 10"
    using e by simp
  with ea' eb' ec t have "\<bar>a + b\<bar> \<le> 8"
    by linarith
  then have "\<bar>a + b\<bar> \<le> 2 powi 3"
    by simp
  from round32_error [OF this] obtain r where r: "round32 (a + b) = Finite r"
    and er: "\<bar>r - (a + b)\<bar> \<le> 2 powi (3 - 24)"
    by auto
  have er': "\<bar>r - (a + b)\<bar> \<le> 1 / 2097152"
    using er by simp
  have "\<bar>r - (t + 1 + e / 10)\<bar> \<le> 1 / 1000000"
    using ea' eb' ec er' by linarith
  then have "\<bar>r - (t + 1 + e / 10)\<bar> \<le> 1 / 10 ^ 6"
    by simp
  moreover have "f32_add (f32_add (Finite t) (round32 1)) (f32_mul (Finite e) (round32 (1 / 10)))
      = Finite r"
    using a b r by (simp add: round32_1 round32_tenth)
  ultimately show ?thesis by blast
qed

section \<open>Basic facts about draws\<close>

lemma length_draws: "length (fst (draws f n g)) = n"
  by (induction n arbitrary: g) (simp_all add: split_beta Let_def)

lemma randn_like_shape: "shape (fst (randn_like T t g)) = shape t"
  by (simp add: randn_like_def split_beta)

lemma randn_like_length: "length (data (fst (randn_like T t g))) = numel t"
  by (simp add: randn_like_def split_beta length_draws)

section \<open>Shape and entries of the simulator output\<close>

lemma simulator_shape: "shape (fst (simulator T theta g)) = shape theta"
  by (simp add: simulator_def split_beta add_tensor_def add_scalar_def)

lemma simulator_data:
  "data (fst (simulator T theta g)) =
     map2 f32_add (map (\<lambda>v. f32_add v (round32 1.0)) (data theta))
       (map (\<lambda>v. f32_mul v (round32 0.1)) (data (fst (randn_like T theta g))))"
  by (simp add: simulator_def split_beta add_tensor_def add_scalar_def mul_scalar_def)

lemma simulator_length:
  "wf_tensor theta \<Longrightarrow> length (data (fst (simulator T theta g))) = numel theta"
  by (simp add: simulator_data randn_like_length wf_tensor_def)

lemma simulator_nth:
  "wf_tensor theta \<Longrightarrow> i < numel theta \<Longrightarrow>
     data (fst (simulator T theta g)) ! i =
       f32_add (f32_add (data theta ! i) (round32 1.0))
         (f32_mul (data (fst (randn_like T theta g)) ! i) (round32 0.1))"
  by (simp add: simulator_data randn_like_length wf_tensor_def)

lemma simulator_rng: "snd (simulator T theta g) = snd (randn_like T theta g)"
  by (simp add: simulator_def split_beta)

lemma simulator_wf: "wf_tensor theta \<Longrightarrow> wf_tensor (fst (simulator T theta g))"
  by (simp add: wf_tensor_def [of "fst (simulator T theta g)"] simulator_length numel_def simulator_shape)

lemma simulator_entry_error:
  assumes wf: "wf_tensor theta" and i: "i < numel theta"
    and t: "data theta ! i = Finite t" "\<bar>t\<bar> \<le> 3"
    and e: "data (fst (randn_like T theta g)) ! i = Finite e" "\<bar>e\<bar> \<le> 8"
  shows "\<exists>r. data (fst (simulator T theta g)) ! i = Finite r \<and>
             \<bar>r - (t + 1.0 + 0.1 * e)\<bar> \<le> 1 / 10 ^ 6"
  using entry_error [OF t(2) e(2)] by (simp add: simulator_nth [OF wf i] t(1) e(1))

lemma draws3: "draws f 3 g = (let (a, g1) = f g; (b, g2) = f g1; (c, g3) = f g2 in ([a, b, c], g3))"
  by (simp add: numeral_3_eq_3 split_beta)

lemma draws1: "draws f 1 g = (let (a, g1) = f g in ([a], g1))"
  by (simp add: split_beta)

section \<open>The simulator on concrete tensors\<close>

lemma wf_theta_a: "wf_tensor theta_a" and numel_theta_a: "numel theta_a = 3"
  by (simp_all add: wf_tensor_def numel_def theta_a_def)

lemma noise_theta_a:
  "fst (randn_like counter_torch theta_a 0) = \<lparr>shape = [1, 3], data = [Finite (- 1), Finite 0, Finite 1]\<rparr>"
  by (simp add: randn_like_def numel_def theta_a_def counter_torch_def draws3)

lemma round32_vals:
  "round32 (3 / 2) = Finite (3 / 2)"
  "round32 (- 1) = Finite (- 1)"
  "round32 (13421773 / 134217728) = Finite (13421773 / 134217728)"
  "round32 (- (13421773 / 134217728)) = Finite (- (13421773 / 134217728))"
  "round32 (120795955 / 134217728) = Finite (7549747 / 8388608)"
  "round32 (- (120795955 / 134217728)) = Finite (- (7549747 / 8388608))"
  "round32 (8388609 / 16777216) = Finite (8388609 / 16777216)"
  "round32 (25165825 / 16777216) = Finite (3 / 2)"
       apply (subst round32_normal [of 0], simp_all add: rne_def Let_def)
      apply (subst round32_normal [of 0], simp_all add: rne_def Let_def)
     apply (subst round32_normal [of "- 4"], simp_all add: rne_def Let_def)
    apply (subst round32_normal [of "- 4"], simp_all add: rne_def Let_def)
   apply (subst round32_normal [of "- 1"], simp_all add: rne_def Let_def)
  apply (subst round32_normal [of "- 1"], simp_all add: rne_def Let_def)
  apply (subst round32_normal [of "- 1"], simp_all add: rne_def Let_def)
  apply (subst round32_normal [of 0], simp_all add: rne_def Let_def)
  done

lemmas eval_simps = simulator_def randn_like_def add_tensor_def add_scalar_def mul_scalar_def
  numel_def counter_torch_def draws3 draws1 round32_0 round32_1 round32_tenth round32_vals

lemma simulator_theta_a:
  "fst (simulator counter_torch theta_a 0) =
     \<lparr>shape = [1, 3],
      data = [Finite (7549747 / 8388608), Finite (3 / 2), Finite (- (7549747 / 8388608))]\<rparr>"
  by (simp add: eval_simps theta_a_def)

lemma simulator_theta_b:
  "fst (simulator counter_torch theta_b 1) = \<lparr>shape = [1], data = [Finite (3 / 2)]\<rparr>"
  by (simp add: eval_simps theta_b_def)

lemma add_theta_b_delta_b:
  "add_tensor theta_b delta_b = \<lparr>shape = [1], data = [Finite (8388609 / 16777216)]\<rparr>"
  by (simp add: eval_simps theta_b_def delta_b_def)

lemma simulator_theta_b_delta_b:
  "fst (simulator counter_torch (add_tensor theta_b delta_b) 1) = \<lparr>shape = [1], data = [Finite (3 / 2)]\<rparr>"
  by (simp add: add_theta_b_delta_b) (simp add: eval_simps)

section \<open>The contract of the simulator\<close>

text \<open>
  C1: for every parameter tensor \<open>\<theta>\<close>, with the noise draw \<open>\<epsilon>\<close> of \<open>randn_like\<close> taken as an
  input, the simulator returns a tensor of the shape of \<open>\<theta>\<close> whose every entry is the
  binary32 result of \<open>\<theta> + 1.0 + \<epsilon> * 0.1\<close>, rounded after each of the three operations,
  each coordinate with its own draw. It equals \<open>\<theta> + 1.0 + 0.1 * \<epsilon>\<close> up to rounding: where
  \<open>|\<theta>| \<le> 3\<close> (the box of the prior included) and \<open>|\<epsilon>| \<le> 8\<close> the entry is finite and within
  \<open>1 / 10 ^ 6\<close> of it. The exact equation fails: at \<open>\<theta> = 0\<close>, \<open>\<epsilon> = -1\<close> the entry is
  \<open>7549747 / 8388608\<close>, not \<open>9 / 10\<close>.
\<close>

theorem simulator_contract:
  "wf_tensor theta \<Longrightarrow>
     shape (fst (simulator T theta g)) = shape theta \<and>
     length (data (fst (simulator T theta g))) = numel theta \<and>
     (\<forall>i<numel theta.
        data (fst (simulator T theta g)) ! i =
          f32_add (f32_add (data theta ! i) (round32 1.0))
            (f32_mul (data (fst (randn_like T theta g)) ! i) (round32 0.1)) \<and>
        (\<forall>t e. data theta ! i = Finite t \<and> \<bar>t\<bar> \<le> 3 \<and>
               data (fst (randn_like T theta g)) ! i = Finite e \<and> \<bar>e\<bar> \<le> 8 \<longrightarrow>
           (\<exists>r. data (fst (simulator T theta g)) ! i = Finite r \<and>
                \<bar>r - (t + 1.0 + 0.1 * e)\<bar> \<le> 1 / 10 ^ 6)))"
proof (intro conjI allI impI)
  assume wf: "wf_tensor theta"
  show "shape (fst (simulator T theta g)) = shape theta"
    by (rule simulator_shape)
  show "length (data (fst (simulator T theta g))) = numel theta"
    by (rule simulator_length [OF wf])
  fix i assume i: "i < numel theta"
  show "data (fst (simulator T theta g)) ! i =
          f32_add (f32_add (data theta ! i) (round32 1.0))
            (f32_mul (data (fst (randn_like T theta g)) ! i) (round32 0.1))"
    by (rule simulator_nth [OF wf i])
  fix t e
  assume "data theta ! i = Finite t \<and> \<bar>t\<bar> \<le> 3 \<and>
          data (fst (randn_like T theta g)) ! i = Finite e \<and> \<bar>e\<bar> \<le> 8"
  then show "\<exists>r. data (fst (simulator T theta g)) ! i = Finite r \<and>
                \<bar>r - (t + 1.0 + 0.1 * e)\<bar> \<le> 1 / 10 ^ 6"
    using simulator_entry_error [OF wf i, of t T g e] by blast
qed

theorem simulator_contract_witness:
  "wf_tensor theta_a \<and>
   data theta_a ! 0 = Finite 0 \<and>
   data (fst (randn_like counter_torch theta_a 0)) ! 0 = Finite (- 1) \<and>
   shape (fst (simulator counter_torch theta_a 0)) = [1, 3] \<and>
   data (fst (simulator counter_torch theta_a 0)) ! 0 = Finite (7549747 / 8388608) \<and>
   \<bar>7549747 / 8388608 - (0 + 1.0 + 0.1 * (- 1))\<bar> \<le> (1 / 10 ^ 6 :: real)"
proof -
  have t: "data theta_a ! 0 = Finite 0"
    by (simp add: theta_a_def)
  have e: "data (fst (randn_like counter_torch theta_a 0)) ! 0 = Finite (- 1)"
    by (simp add: noise_theta_a)
  have i: "0 < numel theta_a"
    by (simp add: numel_theta_a)
  have v: "data (fst (simulator counter_torch theta_a 0)) ! 0 = Finite (7549747 / 8388608)"
    by (simp add: simulator_theta_a)
  from simulator_contract [OF wf_theta_a, of counter_torch 0] i t e
  obtain r where "data (fst (simulator counter_torch theta_a 0)) ! 0 = Finite r"
    and "\<bar>r - (0 + 1.0 + 0.1 * (- 1))\<bar> \<le> 1 / 10 ^ 6"
    and "shape (fst (simulator counter_torch theta_a 0)) = shape theta_a"
    by force
  with v t e wf_theta_a show ?thesis
    by (simp add: theta_a_def)
qed

theorem simulator_exact_counterexample:
  "data theta_a ! 0 = Finite 0 \<and>
   data (fst (randn_like counter_torch theta_a 0)) ! 0 = Finite (- 1) \<and>
   data (fst (simulator counter_torch theta_a 0)) ! 0 = Finite (7549747 / 8388608) \<and>
   (7549747 / 8388608 :: real) \<noteq> 0 + 1.0 + 0.1 * (- 1)"
  by (simp add: simulator_theta_a noise_theta_a) (simp add: theta_a_def)

text \<open>
  C3: for every batch of \<open>\<theta>\<close> vectors given to the simulator, the returned batch has the
  shape of the input batch (the same batch size and the same dimension of each vector),
  and as many entries.
\<close>

theorem simulator_preserves_shape:
  "wf_tensor theta \<Longrightarrow>
     shape (fst (simulator T theta g)) = shape theta \<and>
     numel (fst (simulator T theta g)) = numel theta \<and>
     wf_tensor (fst (simulator T theta g))"
  by (simp add: simulator_shape simulator_wf numel_def)

theorem simulator_preserves_shape_witness:
  "wf_tensor \<lparr>shape = [2, 3],
      data = [Finite 0, Finite (1/2), Finite (- 2), Finite 2, Finite 1, Finite (- 1)]\<rparr> \<and>
   shape (fst (simulator counter_torch \<lparr>shape = [2, 3],
      data = [Finite 0, Finite (1/2), Finite (- 2), Finite 2, Finite 1, Finite (- 1)]\<rparr> 0)) = [2, 3] \<and>
   wf_tensor (fst (simulator counter_torch \<lparr>shape = [2, 3],
      data = [Finite 0, Finite (1/2), Finite (- 2), Finite 2, Finite 1, Finite (- 1)]\<rparr> 0))"
proof -
  have h: "wf_tensor \<lparr>shape = [2, 3],
      data = [Finite 0, Finite (1/2), Finite (- 2), Finite 2, Finite 1, Finite (- 1)]\<rparr>"
    by (simp add: wf_tensor_def numel_def)
  show ?thesis
    using h simulator_preserves_shape [OF h, of counter_torch 0] by simp
qed

section \<open>Bounded noise and translation\<close>

lemma prior_numel: "numel (low prior) = 3"
  by (simp add: prior_def ones_def num_dim_def mul_scalar_def numel_def)

lemma prior_low_nth: "j < 3 \<Longrightarrow> data (low prior) ! j = Finite (- 2)"
  by (simp add: prior_def ones_def num_dim_def mul_scalar_def round32_m2)

lemma prior_high_nth: "j < 3 \<Longrightarrow> data (high prior) ! j = Finite 2"
  by (simp add: prior_def ones_def num_dim_def mul_scalar_def round32_2)

lemma in_box_wf: "in_box p t \<Longrightarrow> wf_tensor t"
  by (simp add: in_box_def)

lemma f32_between:
  "f32_le (Finite a) v \<Longrightarrow> f32_le v (Finite b) \<Longrightarrow> \<exists>t. v = Finite t \<and> a \<le> t \<and> t \<le> b"
  by (cases v) auto

lemma in_box_entry:
  assumes box: "in_box prior theta" and i: "i < numel theta"
  shows "\<exists>t. data theta ! i = Finite t \<and> - 2 \<le> t \<and> t \<le> 2"
proof -
  have len: "i < length (data theta)"
    using box i by (simp add: in_box_def wf_tensor_def)
  have "list_all (\<lambda>(k, v). f32_le (data (low prior) ! (k mod numel (low prior))) v \<and>
                       f32_le v (data (high prior) ! (k mod numel (low prior))))
       (enumerate 0 (data theta))"
    using box by (simp add: in_box_def)
  then have "f32_le (data (low prior) ! (i mod 3)) (data theta ! i) \<and>
             f32_le (data theta ! i) (data (high prior) ! (i mod 3))"
    using len by (simp add: list_all_length nth_enumerate_eq prior_numel)
  then show ?thesis
    by (simp add: prior_low_nth prior_high_nth f32_between)
qed

lemma in_box_theta_a: "in_box prior theta_a"
proof -
  have a: "case shape theta_a of [n, d] \<Rightarrow> d = numel (low prior) | _ \<Rightarrow> False"
    by (simp add: theta_a_def prior_numel)
  have b: "list_all (\<lambda>(k, v). f32_le (data (low prior) ! (k mod numel (low prior))) v \<and>
                       f32_le v (data (high prior) ! (k mod numel (low prior))))
       (enumerate 0 (data theta_a))"
    by (simp add: theta_a_def prior_numel prior_low_nth prior_high_nth)
  show ?thesis
    unfolding in_box_def using wf_theta_a a b by blast
qed

text \<open>
  C8: for every \<open>\<theta>\<close> in the box of the prior, [-2, 2] in each of the 3 dimensions, whenever
  every coordinate of the noise draw is finite and at most \<open>c \<le> 8\<close> in absolute value, every
  coordinate of the output is finite and differs from the coordinate of \<open>\<theta> + 1\<close> by at most
  \<open>0.1 * c + 1 / 10 ^ 6\<close>. The bound \<open>0.1 * c\<close> itself fails by rounding: at \<open>\<theta> = -2\<close>, \<open>\<epsilon> = 1\<close>,
  \<open>c = 1\<close> the distance is \<open>838861 / 8388608\<close>, more than \<open>1 / 10\<close>.
\<close>

theorem simulator_noise_bound:
  "in_box prior theta \<Longrightarrow> c \<le> 8 \<Longrightarrow>
   (\<forall>i<numel theta. \<exists>e. data (fst (randn_like T theta g)) ! i = Finite e \<and> \<bar>e\<bar> \<le> c) \<Longrightarrow>
   (\<forall>i<numel theta. \<exists>t r.
      data theta ! i = Finite t \<and> data (fst (simulator T theta g)) ! i = Finite r \<and>
      \<bar>r - (t + 1.0)\<bar> \<le> 0.1 * c + 1 / 10 ^ 6)"
proof (intro allI impI)
  fix i
  assume box: "in_box prior theta" and c: "c \<le> 8"
    and noise: "\<forall>i<numel theta. \<exists>e. data (fst (randn_like T theta g)) ! i = Finite e \<and> \<bar>e\<bar> \<le> c"
    and i: "i < numel theta"
  from box have wf: "wf_tensor theta" by (rule in_box_wf)
  from in_box_entry [OF box i] obtain t where t: "data theta ! i = Finite t" "- 2 \<le> t" "t \<le> 2"
    by blast
  from noise i obtain e where e: "data (fst (randn_like T theta g)) ! i = Finite e" "\<bar>e\<bar> \<le> c"
    by blast
  have "\<bar>t\<bar> \<le> 3" "\<bar>e\<bar> \<le> 8"
    using t e c by linarith+
  from simulator_entry_error [OF wf i t(1) this(1) e(1) this(2)]
  obtain r where r: "data (fst (simulator T theta g)) ! i = Finite r"
    and er: "\<bar>r - (t + 1.0 + 0.1 * e)\<bar> \<le> 1 / 10 ^ 6"
    by blast
  have "\<bar>r - (t + 1 + e / 10)\<bar> \<le> 1 / 1000000"
    using er by simp
  then have "\<bar>r - (t + 1)\<bar> \<le> c / 10 + 1 / 1000000"
    using e(2) by linarith
  then have "\<bar>r - (t + 1.0)\<bar> \<le> 0.1 * c + 1 / 10 ^ 6"
    by simp
  with t(1) r
  show "\<exists>t r. data theta ! i = Finite t \<and> data (fst (simulator T theta g)) ! i = Finite r \<and>
      \<bar>r - (t + 1.0)\<bar> \<le> 0.1 * c + 1 / 10 ^ 6"
    by blast
qed

theorem simulator_noise_bound_witness:
  "in_box prior theta_a \<and>
   data (fst (randn_like counter_torch theta_a 0)) = [Finite (- 1), Finite 0, Finite 1] \<and>
   data theta_a ! 2 = Finite (- 2) \<and>
   data (fst (simulator counter_torch theta_a 0)) ! 2 = Finite (- (7549747 / 8388608)) \<and>
   \<bar>- (7549747 / 8388608) - (- 2 + 1.0)\<bar> \<le> (0.1 * 1 + 1 / 10 ^ 6 :: real)"
proof -
  have eps: "data (fst (randn_like counter_torch theta_a 0)) = [Finite (- 1), Finite 0, Finite 1]"
    by (simp add: noise_theta_a)
  have noise: "\<forall>i<numel theta_a. \<exists>e. data (fst (randn_like counter_torch theta_a 0)) ! i = Finite e \<and> \<bar>e\<bar> \<le> 1"
    unfolding eps by (simp add: numel_theta_a numeral_3_eq_3 less_Suc_eq)
  have c: "(1::real) \<le> 8" by simp
  have i: "2 < numel theta_a" by (simp add: numel_theta_a)
  have t: "data theta_a ! 2 = Finite (- 2)" by (simp add: theta_a_def)
  have v: "data (fst (simulator counter_torch theta_a 0)) ! 2 = Finite (- (7549747 / 8388608))"
    by (simp add: simulator_theta_a)
  from simulator_noise_bound [OF in_box_theta_a c noise] i
  obtain t' r where "data theta_a ! 2 = Finite t'"
    "data (fst (simulator counter_torch theta_a 0)) ! 2 = Finite r"
    "\<bar>r - (t' + 1.0)\<bar> \<le> 0.1 * 1 + 1 / 10 ^ 6"
    by blast
  with t v in_box_theta_a eps show ?thesis
    by simp
qed

theorem simulator_tight_bound_counterexample:
  "in_box prior theta_a \<and>
   data (fst (randn_like counter_torch theta_a 0)) = [Finite (- 1), Finite 0, Finite 1] \<and>
   data theta_a ! 2 = Finite (- 2) \<and>
   data (fst (simulator counter_torch theta_a 0)) ! 2 = Finite (- (7549747 / 8388608)) \<and>
   \<not> \<bar>- (7549747 / 8388608) - (- 2 + 1.0)\<bar> \<le> (0.1 * 1 :: real)"
  by (simp add: in_box_theta_a simulator_theta_a noise_theta_a) (simp add: theta_a_def)

text \<open>
  C10: with the generator state, and so the noise draw, held fixed, the simulator is
  translation-equivariant up to rounding: for \<open>\<theta>\<close> and \<open>\<delta>\<close> of one shape the noise drawn for
  \<open>\<theta> + \<delta>\<close> is the noise drawn for \<open>\<theta>\<close>, and in every coordinate with \<open>|\<theta>| \<le> 2\<close>,
  \<open>|\<theta> + \<delta>| \<le> 2\<close> and \<open>|\<epsilon>| \<le> 8\<close> the two outputs are finite, their difference is within
  \<open>3 / 10 ^ 6\<close> of \<open>\<delta>\<close>, and the output minus \<open>\<theta>\<close> is within \<open>1 / 10 ^ 6\<close> of \<open>1.0 + 0.1 * \<epsilon>\<close>, in which
  no entry of \<open>\<theta>\<close> occurs. Exactly it fails: at \<open>\<theta> = 1/2\<close>, \<open>\<delta> = 1 / 2 ^ 24\<close> and noise 0 both
  outputs are \<open>3/2\<close>.
\<close>

theorem simulator_translation_equivariant:
  "wf_tensor theta \<Longrightarrow> wf_tensor delta \<Longrightarrow> shape delta = shape theta \<Longrightarrow>
     randn_like T (add_tensor theta delta) g = randn_like T theta g \<and>
     (\<forall>i<numel theta. \<forall>t d e.
        data theta ! i = Finite t \<and> data delta ! i = Finite d \<and> \<bar>t\<bar> \<le> 2 \<and> \<bar>t + d\<bar> \<le> 2 \<and>
        data (fst (randn_like T theta g)) ! i = Finite e \<and> \<bar>e\<bar> \<le> 8 \<longrightarrow>
        (\<exists>r r'. data (fst (simulator T theta g)) ! i = Finite r \<and>
                data (fst (simulator T (add_tensor theta delta) g)) ! i = Finite r' \<and>
                \<bar>r' - r - d\<bar> \<le> 3 / 10 ^ 6 \<and>
                \<bar>r - t - (1.0 + 0.1 * e)\<bar> \<le> 1 / 10 ^ 6))"
proof -
  assume wf: "wf_tensor theta" and wfd: "wf_tensor delta" and sh: "shape delta = shape theta"
  let ?td = "add_tensor theta delta"
  have n: "numel ?td = numel theta" "numel delta = numel theta"
    using sh by (simp_all add: numel_def add_tensor_def)
  have len: "length (data delta) = numel theta" "length (data theta) = numel theta"
    using wf wfd n by (simp_all add: wf_tensor_def)
  have wftd: "wf_tensor ?td"
    using len n by (simp add: wf_tensor_def add_tensor_def)
  have noise: "randn_like T ?td g = randn_like T theta g"
    using n by (simp add: randn_like_def add_tensor_def)
  have entries: "\<exists>r r'. data (fst (simulator T theta g)) ! i = Finite r \<and>
                data (fst (simulator T ?td g)) ! i = Finite r' \<and>
                \<bar>r' - r - d\<bar> \<le> 3 / 10 ^ 6 \<and>
                \<bar>r - t - (1.0 + 0.1 * e)\<bar> \<le> 1 / 10 ^ 6"
    if i: "i < numel theta"
      and h: "data theta ! i = Finite t \<and> data delta ! i = Finite d \<and> \<bar>t\<bar> \<le> 2 \<and> \<bar>t + d\<bar> \<le> 2 \<and>
        data (fst (randn_like T theta g)) ! i = Finite e \<and> \<bar>e\<bar> \<le> 8"
    for i t d e
  proof -
    from h have t: "data theta ! i = Finite t" and d: "data delta ! i = Finite d"
      and bt: "\<bar>t\<bar> \<le> 2" and btd: "\<bar>t + d\<bar> \<le> 2"
      and e: "data (fst (randn_like T theta g)) ! i = Finite e" and be: "\<bar>e\<bar> \<le> 8"
      by simp_all
    have "\<bar>t + d\<bar> \<le> 2 powi 1"
      using btd by simp
    from round32_error [OF this] obtain t' where t': "round32 (t + d) = Finite t'"
      and et: "\<bar>t' - (t + d)\<bar> \<le> 2 powi (1 - 24)"
      by auto
    have et': "\<bar>t' - (t + d)\<bar> \<le> 1 / 8388608"
      using et by simp
    have td: "data ?td ! i = Finite t'"
      using i len t d t' by (simp add: add_tensor_def)
    have bt': "\<bar>t'\<bar> \<le> 3"
      using et' btd by linarith
    have bt3: "\<bar>t\<bar> \<le> 3"
      using bt by linarith
    have i': "i < numel ?td"
      using i n by simp
    have e': "data (fst (randn_like T ?td g)) ! i = Finite e"
      using e noise by simp
    from simulator_entry_error [OF wf i t bt3 e be]
    obtain r where r: "data (fst (simulator T theta g)) ! i = Finite r"
      and er: "\<bar>r - (t + 1.0 + 0.1 * e)\<bar> \<le> 1 / 10 ^ 6"
      by blast
    from simulator_entry_error [OF wftd i' td bt' e' be]
    obtain r' where r': "data (fst (simulator T ?td g)) ! i = Finite r'"
      and er': "\<bar>r' - (t' + 1.0 + 0.1 * e)\<bar> \<le> 1 / 10 ^ 6"
      by blast
    have er1: "\<bar>r - (t + 1 + e / 10)\<bar> \<le> 1 / 1000000"
      using er by simp
    have er2: "\<bar>r' - (t' + 1 + e / 10)\<bar> \<le> 1 / 1000000"
      using er' by simp
    have "\<bar>r' - r - d\<bar> \<le> 3 / 1000000"
      using er1 er2 et' by linarith
    then have "\<bar>r' - r - d\<bar> \<le> 3 / 10 ^ 6"
      by simp
    moreover have "\<bar>r - t - (1 + e / 10)\<bar> \<le> 1 / 1000000"
      using er1 by linarith
    then have "\<bar>r - t - (1.0 + 0.1 * e)\<bar> \<le> 1 / 10 ^ 6"
      by simp
    ultimately show ?thesis
      using r r' by blast
  qed
  show ?thesis
    using noise entries by blast
qed

theorem simulator_translation_equivariant_witness:
  "wf_tensor theta_b \<and> wf_tensor delta_b \<and> shape delta_b = shape theta_b \<and>
   data theta_b ! 0 = Finite (1 / 2) \<and> data delta_b ! 0 = Finite (1 / 16777216) \<and>
   data (fst (randn_like counter_torch theta_b 1)) ! 0 = Finite 0 \<and>
   data (fst (simulator counter_torch theta_b 1)) ! 0 = Finite (3 / 2) \<and>
   data (fst (simulator counter_torch (add_tensor theta_b delta_b) 1)) ! 0 = Finite (3 / 2) \<and>
   \<bar>3 / 2 - 3 / 2 - 1 / 16777216\<bar> \<le> (3 / 10 ^ 6 :: real)"
proof -
  have h1: "wf_tensor theta_b" and h2: "wf_tensor delta_b" and h3: "shape delta_b = shape theta_b"
    by (simp_all add: wf_tensor_def numel_def theta_b_def delta_b_def)
  have i: "0 < numel theta_b"
    by (simp add: numel_def theta_b_def)
  have t: "data theta_b ! 0 = Finite (1 / 2)" and d: "data delta_b ! 0 = Finite (1 / 16777216)"
    by (simp_all add: theta_b_def delta_b_def)
  have e: "data (fst (randn_like counter_torch theta_b 1)) ! 0 = Finite 0"
    by (simp add: randn_like_def numel_def theta_b_def counter_torch_def draws1)
  have v: "data (fst (simulator counter_torch theta_b 1)) ! 0 = Finite (3 / 2)"
    "data (fst (simulator counter_torch (add_tensor theta_b delta_b) 1)) ! 0 = Finite (3 / 2)"
    using simulator_theta_b simulator_theta_b_delta_b by simp_all
  have b: "\<bar>1 / 2 :: real\<bar> \<le> 2" "\<bar>1 / 2 + 1 / 16777216 :: real\<bar> \<le> 2" "\<bar>0 :: real\<bar> \<le> 8"
    by simp_all
  from simulator_translation_equivariant [OF h1 h2 h3, of counter_torch 1] i t d e b
  obtain r r' where "data (fst (simulator counter_torch theta_b 1)) ! 0 = Finite r"
    "data (fst (simulator counter_torch (add_tensor theta_b delta_b) 1)) ! 0 = Finite r'"
    "\<bar>r' - r - 1 / 16777216\<bar> \<le> 3 / 10 ^ 6"
    by blast
  with v h1 h2 h3 t d e show ?thesis
    by simp
qed

theorem simulator_equivariance_counterexample:
  "wf_tensor theta_b \<and> wf_tensor delta_b \<and> shape delta_b = shape theta_b \<and>
   data delta_b ! 0 = Finite (1 / 16777216) \<and>
   data (fst (simulator counter_torch (add_tensor theta_b delta_b) 1)) ! 0 = Finite (3 / 2) \<and>
   data (fst (simulator counter_torch theta_b 1)) ! 0 = Finite (3 / 2) \<and>
   (3 / 2 - 3 / 2 :: real) \<noteq> 1 / 16777216"
  using simulator_theta_b simulator_theta_b_delta_b
  by (simp add: wf_tensor_def numel_def theta_b_def delta_b_def)

section \<open>The cells, one by one\<close>

lemmas cell_simps = lookup_def called_def split_beta Let_def

lemma cell2_passed:
  assumes "process_prior_ok L prior" "process_simulator_ok L (simulator T) prior False"
    and "fst (check_sbi_inputs L (simulator T) prior g)"
  shows "cell2 T L (fresh g) = Finished (state_of (cell2 T L (fresh g)))"
  using assms
  by (simp add: cell2_def fresh_def process_prior_def process_simulator_def cell_simps)

lemma cell2_state:
  assumes "process_prior_ok L prior" "process_simulator_ok L (simulator T) prior False"
  shows "state_of (cell2 T L (fresh g)) =
     (fresh g)\<lparr>rng := snd (check_sbi_inputs L (simulator T) prior g),
       calls := [ProcessPrior, ProcessSimulator, CheckSbiInputs],
       prior_v := Some prior, num_parameters_v := Some (numel (low prior)),
       prior_returns_numpy_v := Some False, simulator_v := Some (simulator T)\<rparr>"
  using assms
  by (simp add: cell2_def fresh_def process_prior_def process_simulator_def cell_simps)




lemma cell3_finished:
  "prior_v s = Some p \<Longrightarrow> simulator_v s = Some sim \<Longrightarrow>
     cell3 T L s = Finished (state_of (cell3 T L s))"
  by (simp add: cell3_def cell_simps)

lemma cell3_state:
  "prior_v s = Some p \<Longrightarrow> simulator_v s = Some sim \<Longrightarrow>
     state_of (cell3 T L s) =
       (let sims = simulate_for_sbi T sim p 2000 (rng s);
            theta = fst (fst sims); x = snd (fst sims);
            fit = train L [(theta, x)] (snd sims)
        in s\<lparr>rng := snd fit,
             calls := calls s @ [NPECall, SimulateForSbi 2000, AppendSimulations, Train, BuildPosterior],
             inference_v := Some \<lparr>inf_prior = p, rounds = [(theta, x)]\<rparr>,
             theta_v := Some theta, x_v := Some x,
             density_estimator_v := Some (fst fit),
             posterior_v := Some (build_posterior L (fst fit))\<rparr>)"
  by (simp add: cell3_def cell_simps NPE_def append_simulations_def)

lemma cell4_finished:
  "prior_v s = Some p \<Longrightarrow> simulator_v s = Some sim \<Longrightarrow>
     cell4 T s = Finished (state_of (cell4 T s))"
  by (simp add: cell4_def cell_simps)

lemma cell4_state:
  "prior_v s = Some p \<Longrightarrow> simulator_v s = Some sim \<Longrightarrow>
     state_of (cell4 T s) =
       (let a = box_sample T p 1 (rng s); b = sim (fst a) (snd a);
            c = box_sample T p 1 (snd b); d = sim (fst c) (snd c)
        in s\<lparr>rng := snd d,
             calls := calls s @ [PriorSample 1, SimulatorCall, PriorSample 1, SimulatorCall],
             theta_1_v := Some (fst a), x_obs_1_v := Some (fst b),
             theta_2_v := Some (fst c), x_obs_2_v := Some (fst d)\<rparr>)"
  by (simp add: cell4_def cell_simps)

lemma cell5_finished:
  "posterior_v s = Some post \<Longrightarrow> x_obs_1_v s = Some x1 \<Longrightarrow> theta_1_v s = Some t1 \<Longrightarrow>
     cell5 L s = Finished (state_of (cell5 L s))"
  by (simp add: cell5_def cell_simps)

lemma cell5_state:
  "posterior_v s = Some post \<Longrightarrow> x_obs_1_v s = Some x1 \<Longrightarrow> theta_1_v s = Some t1 \<Longrightarrow>
     state_of (cell5 L s) =
       s\<lparr>rng := snd (sample L post 10000 x1 (rng s)),
         calls := calls s @ [PosteriorSample 10000, Pairplot],
         posterior_samples_1_v := Some (fst (sample L post 10000 x1 (rng s)))\<rparr>"
  by (simp add: cell5_def cell_simps)

lemma cell6_finished:
  "posterior_v s = Some post \<Longrightarrow> x_obs_2_v s = Some x2 \<Longrightarrow> theta_2_v s = Some t2 \<Longrightarrow>
     cell6 L s = Finished (state_of (cell6 L s))"
  by (simp add: cell6_def cell_simps)

lemma cell6_state:
  "posterior_v s = Some post \<Longrightarrow> x_obs_2_v s = Some x2 \<Longrightarrow> theta_2_v s = Some t2 \<Longrightarrow>
     state_of (cell6 L s) =
       s\<lparr>rng := snd (sample L post 10000 x2 (rng s)),
         calls := calls s @ [PosteriorSample 10000, Pairplot],
         posterior_samples_2_v := Some (fst (sample L post 10000 x2 (rng s)))\<rparr>"
  by (simp add: cell6_def cell_simps)

text \<open>The later cells leave what fitting produced unchanged, whatever their outcome.\<close>

lemma cell4_frame: "fitted (state_of (cell4 T s)) = fitted s"
  by (simp add: cell4_def cell_simps fitted_def split: option.splits)

lemma cell5_frame: "fitted (state_of (cell5 L s)) = fitted s"
  by (simp add: cell5_def cell_simps fitted_def split: option.splits)

lemma cell6_frame: "fitted (state_of (cell6 L s)) = fitted s"
  by (simp add: cell6_def cell_simps fitted_def split: option.splits)

section \<open>Draws, rows and samples of the prior\<close>

lemma draws_add_fst:
  "fst (draws f (m + n) g) = fst (draws f m g) @ fst (draws f n (snd (draws f m g)))"
  by (induction m arbitrary: g) (simp_all add: split_beta Let_def)

lemma draws_add_snd:
  "snd (draws f (m + n) g) = snd (draws f n (snd (draws f m g)))"
  by (induction m arbitrary: g) (simp_all add: split_beta Let_def)

lemma take_drop_draws:
  assumes "i < n"
  shows "take d (drop (i * d) (fst (draws f (n * d) g))) = fst (draws f d (snd (draws f (i * d) g)))"
proof -
  obtain r where n: "n = i + (1 + r)"
    using assms by (metis add.commute add.left_commute less_imp_Suc_add plus_1_eq_Suc)
  have "n * d = i * d + (d + r * d)"
    by (simp add: n algebra_simps)
  then have "fst (draws f (n * d) g)
      = fst (draws f (i * d) g) @ fst (draws f d (snd (draws f (i * d) g)))
          @ fst (draws f (r * d) (snd (draws f d (snd (draws f (i * d) g)))))"
    by (simp add: draws_add_fst)
  then show ?thesis
    by (simp add: length_draws)
qed

lemma simulator_row:
  assumes wf: "wf_tensor theta" and sh: "shape theta = [n, d]" and i: "i < n"
  shows "row i (fst (simulator T theta g))
           = fst (simulator T (row i theta) (snd (draws (randn T) (i * d) g)))"
proof -
  show ?thesis
    by (simp add: row_def simulator_def randn_like_def split_beta add_tensor_def add_scalar_def
        mul_scalar_def sh numel_def take_map drop_map take_zip drop_zip take_drop_draws [OF i] Let_def)
qed

lemma box_sample_shape: "shape (fst (box_sample T p n g)) = [n, numel (low p)]"
  by (simp add: box_sample_def split_beta Let_def)

lemma box_sample_length: "length (data (fst (box_sample T p n g))) = n * numel (low p)"
  by (simp add: box_sample_def split_beta Let_def length_draws)

lemma box_sample_wf: "wf_tensor (fst (box_sample T p n g))"
  by (simp add: wf_tensor_def box_sample_length) (simp add: numel_def box_sample_shape)

lemma box_sample_nth:
  "k < n * numel (low p) \<Longrightarrow>
     data (fst (box_sample T p n g)) ! k =
       f32_add (data (low p) ! (k mod numel (low p)))
         (f32_mul (fst (draws (rand T) (n * numel (low p)) g) ! k)
            (f32_sub (data (high p) ! (k mod numel (low p))) (data (low p) ! (k mod numel (low p)))))"
  by (simp add: box_sample_def split_beta Let_def length_draws nth_enumerate_eq)

lemma box_sample_rng:
  "snd (box_sample T p n g) = snd (draws (rand T) (n * numel (low p)) g)"
  by (simp add: box_sample_def split_beta Let_def)

lemma box_sample_row:
  assumes i: "i < n"
  shows "row i (fst (box_sample T p n g))
           = fst (box_sample T p 1 (snd (draws (rand T) (i * numel (low p)) g)))"
proof -
  let ?d = "numel (low p)"
  let ?g = "snd (draws (rand T) (i * ?d) g)"
  have sh: "shape (row i (fst (box_sample T p n g))) = shape (fst (box_sample T p 1 ?g))"
    by (simp add: row_def box_sample_shape Let_def)
  have da: "data (row i (fst (box_sample T p n g))) = data (fst (box_sample T p 1 ?g))"
  proof (rule nth_equalityI)
    have "i * ?d + ?d \<le> n * ?d"
      using i by (metis Suc_leI mult_Suc mult_le_mono1 add.commute)
    then show len: "length (data (row i (fst (box_sample T p n g))))
                 = length (data (fst (box_sample T p 1 ?g)))"
      by (simp add: row_def box_sample_shape box_sample_length Let_def)
    fix j assume "j < length (data (row i (fst (box_sample T p n g))))"
    then have j: "j < ?d"
      using len by (simp add: box_sample_length)
    have k: "i * ?d + j < n * ?d"
      using i j \<open>i * ?d + ?d \<le> n * ?d\<close> by linarith
    have u: "fst (draws (rand T) (n * ?d) g) ! (i * ?d + j) = fst (draws (rand T) ?d ?g) ! j"
      using take_drop_draws [OF i, of ?d "rand T" g] j k
      by (metis length_draws nth_take nth_drop less_or_eq_imp_le add_leD1)
    have le: "i * ?d \<le> length (data (fst (box_sample T p n g)))"
      using i by (simp add: box_sample_length)
    have "data (row i (fst (box_sample T p n g))) ! j
            = drop (i * ?d) (data (fst (box_sample T p n g))) ! j"
      using j by (simp add: row_def box_sample_shape Let_def)
    also have "\<dots> = data (fst (box_sample T p n g)) ! (i * ?d + j)"
      by (rule nth_drop [OF le])
    also have "data (fst (box_sample T p n g)) ! (i * ?d + j) = data (fst (box_sample T p 1 ?g)) ! j"
      using j k u by (simp add: box_sample_nth)
    finally show "data (row i (fst (box_sample T p n g))) ! j = data (fst (box_sample T p 1 ?g)) ! j" .
  qed
  show ?thesis
    using sh da by simp
qed

section \<open>Amortization\<close>

text \<open>
  C2: once the posterior is built, in any state where it and the two observations are
  bound, the two sampling cells both finish; the first sampling call leaves the inference
  object, the training set, the estimator and the posterior as they were, and so does the
  second; both sample from the one posterior object \<open>post\<close>, the first given \<open>x_obs_1\<close> and
  the second given \<open>x_obs_2\<close>; and the only calls made are two of \<open>sample\<close> and two of
  \<open>pairplot\<close>: no simulation and no training.
\<close>

theorem amortized_sampling:
  "posterior_v s = Some post \<Longrightarrow> x_obs_1_v s = Some x1 \<Longrightarrow> theta_1_v s = Some t1 \<Longrightarrow>
   x_obs_2_v s = Some x2 \<Longrightarrow> theta_2_v s = Some t2 \<Longrightarrow>
     (\<exists>s5 s6.
        cell5 L s = Finished s5 \<and> cell6 L s5 = Finished s6 \<and>
        fitted s5 = fitted s \<and> fitted s6 = fitted s \<and>
        posterior_samples_1_v s6 = Some (fst (sample L post 10000 x1 (rng s))) \<and>
        posterior_samples_2_v s6 = Some (fst (sample L post 10000 x2 (rng s5))) \<and>
        calls s6 = calls s @ [PosteriorSample 10000, Pairplot, PosteriorSample 10000, Pairplot])"
proof -
  assume post: "posterior_v s = Some post" and x1: "x_obs_1_v s = Some x1"
    and t1: "theta_1_v s = Some t1" and x2: "x_obs_2_v s = Some x2"
    and t2: "theta_2_v s = Some t2"
  let ?s5 = "state_of (cell5 L s)"
  let ?s6 = "state_of (cell6 L ?s5)"
  note st5 = cell5_state [OF post x1 t1, of L]
  have c5: "cell5 L s = Finished ?s5"
    by (rule cell5_finished [OF post x1 t1])
  have post5: "posterior_v ?s5 = Some post" and x25: "x_obs_2_v ?s5 = Some x2"
    and t25: "theta_2_v ?s5 = Some t2"
    using post x2 t2 by (simp_all add: st5)
  note st6 = cell6_state [OF post5 x25 t25, of L]
  have c6: "cell6 L ?s5 = Finished ?s6"
    by (rule cell6_finished [OF post5 x25 t25])
  have f5: "fitted ?s5 = fitted s"
    by (rule cell5_frame)
  have f6: "fitted ?s6 = fitted s"
    using cell6_frame [of L ?s5] f5 by simp
  have p1: "posterior_samples_1_v ?s6 = Some (fst (sample L post 10000 x1 (rng s)))"
    by (simp add: st6) (simp add: st5)
  have p2: "posterior_samples_2_v ?s6 = Some (fst (sample L post 10000 x2 (rng ?s5)))"
    by (simp add: st6)
  have cl: "calls ?s6 = calls s @ [PosteriorSample 10000, Pairplot, PosteriorSample 10000, Pairplot]"
    by (simp add: st6) (simp add: st5)
  show ?thesis
    using c5 c6 f5 f6 p1 p2 cl by blast
qed

theorem amortized_sampling_witness:
  "posterior_v demo_state = Some [] \<and>
   (\<exists>s5 s6. cell5 (demo_sbi True True True) demo_state = Finished s5 \<and>
            cell6 (demo_sbi True True True) s5 = Finished s6 \<and>
            fitted s5 = fitted demo_state \<and> fitted s6 = fitted demo_state \<and>
            calls s6 = [PosteriorSample 10000, Pairplot, PosteriorSample 10000, Pairplot])"
proof -
  have h: "posterior_v demo_state = Some []"
    "x_obs_1_v demo_state = Some \<lparr>shape = [1, 3], data = [Finite 1, Finite 1, Finite 1]\<rparr>"
    "theta_1_v demo_state = Some \<lparr>shape = [1, 3], data = [Finite 0, Finite 0, Finite 0]\<rparr>"
    "x_obs_2_v demo_state = Some \<lparr>shape = [1, 3], data = [Finite 2, Finite 2, Finite 2]\<rparr>"
    "theta_2_v demo_state = Some \<lparr>shape = [1, 3], data = [Finite 1, Finite 1, Finite 1]\<rparr>"
    by (simp_all add: demo_state_def fresh_def)
  have c: "calls demo_state = []"
    by (simp add: demo_state_def fresh_def)
  from amortized_sampling [OF h, of "demo_sbi True True True"] h(1) c show ?thesis
    by (simp only: append_Nil) blast
qed

section \<open>The run of the notebook\<close>

lemma run_notebook_passed:
  assumes pp: "process_prior_ok L prior" and ps: "process_simulator_ok L (simulator T) prior False"
    and ok: "fst (check_sbi_inputs L (simulator T) prior g)"
  shows "\<exists>s. run_notebook T L g = Finished s \<and>
     theta_v s = Some (fst (box_sample T prior 2000 (snd (check_sbi_inputs L (simulator T) prior g)))) \<and>
     x_v s = Some (fst (simulator T
                (fst (box_sample T prior 2000 (snd (check_sbi_inputs L (simulator T) prior g))))
                (snd (box_sample T prior 2000 (snd (check_sbi_inputs L (simulator T) prior g)))))) \<and>
     (\<exists>theta x. theta_v s = Some theta \<and> x_v s = Some x \<and>
        inference_v s = Some \<lparr>inf_prior = prior, rounds = [(theta, x)]\<rparr> \<and>
        density_estimator_v s = Some (fst (train L [(theta, x)]
           (snd (simulator T theta
              (snd (box_sample T prior 2000 (snd (check_sbi_inputs L (simulator T) prior g)))))))) \<and>
        posterior_v s = Some (build_posterior L (fst (train L [(theta, x)]
           (snd (simulator T theta
              (snd (box_sample T prior 2000 (snd (check_sbi_inputs L (simulator T) prior g)))))))))) \<and>
     calls s = [ProcessPrior, ProcessSimulator, CheckSbiInputs, NPECall, SimulateForSbi 2000,
                AppendSimulations, Train, BuildPosterior, PriorSample 1, SimulatorCall,
                PriorSample 1, SimulatorCall, PosteriorSample 10000, Pairplot,
                PosteriorSample 10000, Pairplot]"
proof -
  define s2 where "s2 = state_of (cell2 T L (fresh g))"
  define s3 where "s3 = state_of (cell3 T L s2)"
  define s4 where "s4 = state_of (cell4 T s3)"
  define s5 where "s5 = state_of (cell5 L s4)"
  define s6 where "s6 = state_of (cell6 L s5)"
  define g1 where "g1 = snd (check_sbi_inputs L (simulator T) prior g)"
  define theta where "theta = fst (box_sample T prior 2000 g1)"
  define g2 where "g2 = snd (box_sample T prior 2000 g1)"
  define x where "x = fst (simulator T theta g2)"
  define g3 where "g3 = snd (simulator T theta g2)"
  define fit where "fit = train L [(theta, x)] g3"
  have c2: "cell2 T L (fresh g) = Finished s2"
    unfolding s2_def by (rule cell2_passed [OF pp ps ok])
  have p2: "prior_v s2 = Some prior" and m2: "simulator_v s2 = Some (simulator T)"
    and r2: "rng s2 = g1"
    and l2: "calls s2 = [ProcessPrior, ProcessSimulator, CheckSbiInputs]"
    by (simp_all add: s2_def cell2_state [OF pp ps] g1_def)
  have c3: "cell3 T L s2 = Finished s3"
    unfolding s3_def by (rule cell3_finished [OF p2 m2])
  have st3: "s3 = s2\<lparr>rng := snd fit,
             calls := calls s2 @ [NPECall, SimulateForSbi 2000, AppendSimulations, Train, BuildPosterior],
             inference_v := Some \<lparr>inf_prior = prior, rounds = [(theta, x)]\<rparr>,
             theta_v := Some theta, x_v := Some x,
             density_estimator_v := Some (fst fit),
             posterior_v := Some (build_posterior L (fst fit))\<rparr>"
    unfolding s3_def cell3_state [OF p2 m2]
    by (simp add: Let_def simulate_for_sbi_def split_beta r2 theta_def g2_def x_def g3_def fit_def)
  have p3: "prior_v s3 = Some prior" and m3: "simulator_v s3 = Some (simulator T)"
    using p2 m2 by (simp_all add: st3)
  have c4: "cell4 T s3 = Finished s4"
    unfolding s4_def by (rule cell4_finished [OF p3 m3])
  have st4: "s4 = (let a = box_sample T prior 1 (rng s3); b = simulator T (fst a) (snd a);
            c = box_sample T prior 1 (snd b); d = simulator T (fst c) (snd c)
        in s3\<lparr>rng := snd d,
             calls := calls s3 @ [PriorSample 1, SimulatorCall, PriorSample 1, SimulatorCall],
             theta_1_v := Some (fst a), x_obs_1_v := Some (fst b),
             theta_2_v := Some (fst c), x_obs_2_v := Some (fst d)\<rparr>)"
    unfolding s4_def by (rule cell4_state [OF p3 m3])
  have po4: "posterior_v s4 = Some (build_posterior L (fst fit))"
    by (simp add: st4 Let_def) (simp add: st3)
  obtain x1 t1 x2 t2 where v4: "x_obs_1_v s4 = Some x1" "theta_1_v s4 = Some t1"
      "x_obs_2_v s4 = Some x2" "theta_2_v s4 = Some t2"
    by (simp add: st4 Let_def)
  have l4: "calls s4 = calls s3 @ [PriorSample 1, SimulatorCall, PriorSample 1, SimulatorCall]"
    by (simp add: st4 Let_def)
  have c5: "cell5 L s4 = Finished s5"
    unfolding s5_def by (rule cell5_finished [OF po4 v4(1) v4(2)])
  have st5: "s5 = s4\<lparr>rng := snd (sample L (build_posterior L (fst fit)) 10000 x1 (rng s4)),
         calls := calls s4 @ [PosteriorSample 10000, Pairplot],
         posterior_samples_1_v := Some (fst (sample L (build_posterior L (fst fit)) 10000 x1 (rng s4)))\<rparr>"
    unfolding s5_def by (rule cell5_state [OF po4 v4(1) v4(2)])
  have v5: "posterior_v s5 = Some (build_posterior L (fst fit))" "x_obs_2_v s5 = Some x2"
      "theta_2_v s5 = Some t2"
    using po4 v4 by (simp_all add: st5)
  have c6: "cell6 L s5 = Finished s6"
    unfolding s6_def by (rule cell6_finished [OF v5])
  have st6: "s6 = s5\<lparr>rng := snd (sample L (build_posterior L (fst fit)) 10000 x2 (rng s5)),
         calls := calls s5 @ [PosteriorSample 10000, Pairplot],
         posterior_samples_2_v := Some (fst (sample L (build_posterior L (fst fit)) 10000 x2 (rng s5)))\<rparr>"
    unfolding s6_def by (rule cell6_state [OF v5])
  have run: "run_notebook T L g = Finished s6"
    by (simp add: run_notebook_def and_then_def c2 c3 c4 c5 c6)
  have f3: "fitted s3 = (Some \<lparr>inf_prior = prior, rounds = [(theta, x)]\<rparr>, Some theta, Some x,
                 Some (fst fit), Some (build_posterior L (fst fit)))"
    by (simp add: fitted_def st3)
  have "fitted s6 = fitted s3"
    using cell4_frame [of T s3] cell5_frame [of L s4] cell6_frame [of L s5]
    by (simp add: s4_def s5_def s6_def)
  with f3 have f6: "theta_v s6 = Some theta" "x_v s6 = Some x"
      "inference_v s6 = Some \<lparr>inf_prior = prior, rounds = [(theta, x)]\<rparr>"
      "density_estimator_v s6 = Some (fst fit)"
      "posterior_v s6 = Some (build_posterior L (fst fit))"
    by (simp_all add: fitted_def)
  have l3: "calls s3 = calls s2 @ [NPECall, SimulateForSbi 2000, AppendSimulations, Train, BuildPosterior]"
    by (simp add: st3)
  have l5: "calls s5 = calls s4 @ [PosteriorSample 10000, Pairplot]"
    by (simp add: st5)
  have l6: "calls s6 = calls s5 @ [PosteriorSample 10000, Pairplot]"
    by (simp add: st6)
  have l: "calls s6 = [ProcessPrior, ProcessSimulator, CheckSbiInputs, NPECall, SimulateForSbi 2000,
                AppendSimulations, Train, BuildPosterior, PriorSample 1, SimulatorCall,
                PriorSample 1, SimulatorCall, PosteriorSample 10000, Pairplot,
                PosteriorSample 10000, Pairplot]"
    by (simp add: l6 l5 l4 l3 l2)
  show ?thesis
    using run f6 l
    unfolding fit_def g3_def x_def g2_def theta_def g1_def by blast
qed





text \<open>
  C7: when the checks of cell 2 pass the run finishes with a training set of exactly 2000 ordered
  pairs: \<open>theta\<close> and \<open>x\<close> have shape \<open>[2000, 3]\<close>, row \<open>i\<close> of \<open>theta\<close> is a sample of the prior
  and row \<open>i\<close> of \<open>x\<close> is the simulator applied to row \<open>i\<close> of \<open>theta\<close>. It is appended once
  and fitted once: the inference object holds this one round, the estimator is the result
  of training on it, and \<open>simulate_for_sbi\<close>, \<open>append_simulations\<close> and \<open>train\<close> are each
  called once. It is not changed after its creation: the cells after the fitting leave
  it, and everything fitted from it, as they found it, from any state.
\<close>

theorem training_set:
  "process_prior_ok L prior \<Longrightarrow> process_simulator_ok L (simulator T) prior False \<Longrightarrow>
   fst (check_sbi_inputs L (simulator T) prior g) \<Longrightarrow>
     (\<exists>s theta x g1 g2 g3.
        run_notebook T L g = Finished s \<and>
        g1 = snd (check_sbi_inputs L (simulator T) prior g) \<and>
        box_sample T prior 2000 g1 = (theta, g2) \<and>
        simulator T theta g2 = (x, g3) \<and>
        theta_v s = Some theta \<and> x_v s = Some x \<and>
        shape theta = [2000, 3] \<and> shape x = [2000, 3] \<and>
        length (data theta) = 6000 \<and> length (data x) = 6000 \<and>
        (\<forall>i<2000.
           row i theta = fst (box_sample T prior 1 (snd (draws (rand T) (i * 3) g1))) \<and>
           row i x = fst (simulator T (row i theta) (snd (draws (randn T) (i * 3) g2)))) \<and>
        inference_v s = Some \<lparr>inf_prior = prior, rounds = [(theta, x)]\<rparr> \<and>
        density_estimator_v s = Some (fst (train L [(theta, x)] g3)) \<and>
        posterior_v s = Some (build_posterior L (fst (train L [(theta, x)] g3))) \<and>
        count_list (calls s) (SimulateForSbi 2000) = 1 \<and>
        count_list (calls s) AppendSimulations = 1 \<and>
        count_list (calls s) Train = 1) \<and>
     (\<forall>s'. fitted (state_of (cell4 T s')) = fitted s' \<and>
           fitted (state_of (cell5 L s')) = fitted s' \<and>
           fitted (state_of (cell6 L s')) = fitted s')"
proof -
  assume pp: "process_prior_ok L prior"
    and ps: "process_simulator_ok L (simulator T) prior False"
    and ok: "fst (check_sbi_inputs L (simulator T) prior g)"
  define g1 where "g1 = snd (check_sbi_inputs L (simulator T) prior g)"
  define theta where "theta = fst (box_sample T prior 2000 g1)"
  define g2 where "g2 = snd (box_sample T prior 2000 g1)"
  define x where "x = fst (simulator T theta g2)"
  define g3 where "g3 = snd (simulator T theta g2)"
  from run_notebook_passed [OF pp ps ok]
  obtain s where run: "run_notebook T L g = Finished s"
    and th: "theta_v s = Some theta" and xs: "x_v s = Some x"
    and inf: "inference_v s = Some \<lparr>inf_prior = prior, rounds = [(theta, x)]\<rparr>"
    and de: "density_estimator_v s = Some (fst (train L [(theta, x)] g3))"
    and po: "posterior_v s = Some (build_posterior L (fst (train L [(theta, x)] g3)))"
    and cl: "calls s = [ProcessPrior, ProcessSimulator, CheckSbiInputs, NPECall, SimulateForSbi 2000,
                AppendSimulations, Train, BuildPosterior, PriorSample 1, SimulatorCall,
                PriorSample 1, SimulatorCall, PosteriorSample 10000, Pairplot,
                PosteriorSample 10000, Pairplot]"
    unfolding g3_def x_def g2_def theta_def g1_def by force
  have bs: "box_sample T prior 2000 g1 = (theta, g2)"
    by (simp add: theta_def g2_def)
  have sm: "simulator T theta g2 = (x, g3)"
    by (simp add: x_def g3_def)
  have sh: "shape theta = [2000, 3]"
    by (simp add: theta_def box_sample_shape prior_numel)
  have wf: "wf_tensor theta"
    by (simp add: theta_def box_sample_wf)
  have shx: "shape x = [2000, 3]"
    by (simp add: x_def simulator_shape sh)
  have len: "length (data theta) = 6000"
    by (simp add: theta_def box_sample_length prior_numel)
  have lenx: "length (data x) = 6000"
    using simulator_length [OF wf, of T g2] by (simp add: x_def numel_def sh)
  have rows: "\<forall>i<2000.
           row i theta = fst (box_sample T prior 1 (snd (draws (rand T) (i * 3) g1))) \<and>
           row i x = fst (simulator T (row i theta) (snd (draws (randn T) (i * 3) g2)))"
  proof (intro allI impI conjI)
    fix i :: nat assume i: "i < 2000"
    show "row i theta = fst (box_sample T prior 1 (snd (draws (rand T) (i * 3) g1)))"
      using box_sample_row [OF i, of T prior g1] by (simp add: theta_def prior_numel)
    show "row i x = fst (simulator T (row i theta) (snd (draws (randn T) (i * 3) g2)))"
      unfolding x_def by (rule simulator_row [OF wf sh i])
  qed
  have counts: "count_list (calls s) (SimulateForSbi 2000) = 1"
    "count_list (calls s) AppendSimulations = 1" "count_list (calls s) Train = 1"
    by (simp_all add: cl)
  have frame: "\<forall>s'. fitted (state_of (cell4 T s')) = fitted s' \<and>
           fitted (state_of (cell5 L s')) = fitted s' \<and>
           fitted (state_of (cell6 L s')) = fitted s'"
    by (simp add: cell4_frame cell5_frame cell6_frame)
  have "\<exists>s theta x g1 g2 g3.
        run_notebook T L g = Finished s \<and>
        g1 = snd (check_sbi_inputs L (simulator T) prior g) \<and>
        box_sample T prior 2000 g1 = (theta, g2) \<and>
        simulator T theta g2 = (x, g3) \<and>
        theta_v s = Some theta \<and> x_v s = Some x \<and>
        shape theta = [2000, 3] \<and> shape x = [2000, 3] \<and>
        length (data theta) = 6000 \<and> length (data x) = 6000 \<and>
        (\<forall>i<2000.
           row i theta = fst (box_sample T prior 1 (snd (draws (rand T) (i * 3) g1))) \<and>
           row i x = fst (simulator T (row i theta) (snd (draws (randn T) (i * 3) g2)))) \<and>
        inference_v s = Some \<lparr>inf_prior = prior, rounds = [(theta, x)]\<rparr> \<and>
        density_estimator_v s = Some (fst (train L [(theta, x)] g3)) \<and>
        posterior_v s = Some (build_posterior L (fst (train L [(theta, x)] g3))) \<and>
        count_list (calls s) (SimulateForSbi 2000) = 1 \<and>
        count_list (calls s) AppendSimulations = 1 \<and>
        count_list (calls s) Train = 1"
    apply (rule exI [of _ s], rule exI [of _ theta], rule exI [of _ x])
    apply (rule exI [of _ g1], rule exI [of _ g2], rule exI [of _ g3])
    using run g1_def bs sm th xs sh shx len lenx rows inf de po counts
    apply (intro conjI)
    apply assumption+
    done
  from this frame show ?thesis
    by (rule conjI)
qed

theorem training_set_witness:
  "process_prior_ok (demo_sbi True True True) prior \<and>
   process_simulator_ok (demo_sbi True True True) (simulator counter_torch) prior False \<and>
   fst (check_sbi_inputs (demo_sbi True True True) (simulator counter_torch) prior 0) \<and>
   (\<exists>s theta x.
      run_notebook counter_torch (demo_sbi True True True) 0 = Finished s \<and>
      theta = fst (box_sample counter_torch prior 2000 0) \<and>
      x = fst (simulator counter_torch theta 6000) \<and>
      theta_v s = Some theta \<and> x_v s = Some x \<and>
      shape theta = [2000, 3] \<and> shape x = [2000, 3] \<and>
      density_estimator_v s = Some [(theta, x)] \<and>
      count_list (calls s) Train = 1)"
proof -
  have ok: "fst (check_sbi_inputs (demo_sbi True True True) (simulator counter_torch) prior 0)"
    by (simp add: demo_sbi_def)
  have g1: "snd (check_sbi_inputs (demo_sbi True True True) (simulator counter_torch) prior 0) = 0"
    by (simp add: demo_sbi_def)
  have adv: "snd (draws (rand counter_torch) n g) = g + n" for n g
    by (induction n arbitrary: g) (simp_all add: split_beta Let_def counter_torch_def)
  have g2: "snd (box_sample counter_torch prior 2000 0) = 6000"
    by (simp add: box_sample_rng prior_numel adv)
  have tr: "fst (train (demo_sbi True True True) rs g) = rs" for rs g
    by (simp add: demo_sbi_def)
  have pp: "process_prior_ok (demo_sbi True True True) prior"
    and ps: "process_simulator_ok (demo_sbi True True True) (simulator counter_torch) prior False"
    by (simp_all add: demo_sbi_def)
  from training_set [OF pp ps ok]
  obtain s theta x g2' g3 where
    "run_notebook counter_torch (demo_sbi True True True) 0 = Finished s"
    "box_sample counter_torch prior 2000 0 = (theta, g2')"
    "simulator counter_torch theta g2' = (x, g3)"
    "theta_v s = Some theta" "x_v s = Some x"
    "shape theta = [2000, 3]" "shape x = [2000, 3]"
    "density_estimator_v s = Some (fst (train (demo_sbi True True True) [(theta, x)] g3))"
    "count_list (calls s) Train = 1"
    unfolding g1 by blast
  moreover from this g2 have "g2' = 6000" "theta = fst (box_sample counter_torch prior 2000 0)"
    by simp_all
  ultimately show ?thesis
    using pp ps ok by (auto simp add: tr)
qed

end
